theory Spec2Isabelle
  imports Main "HOL-Library.Word"
begin

section \<open>Values\<close>

text \<open>
  Python \<open>bytes\<close> are lists of octets. A Python \<open>str\<close> is modelled as a
  \<open>string\<close>; the only operation the module applies to text is concatenation, so each
  element stands for one code point.
\<close>

type_synonym bytes = "8 word list"

text \<open>A payload is \<open>bytes\<close> or \<open>str\<close> (``str or bytes'' in the docstrings).\<close>

datatype message = Bytes bytes | Str string

section \<open>Close reasons and exceptions\<close>

text \<open>
  The attributes of a \<open>CloseReason\<close>; the properties \<open>code\<close>, \<open>name\<close> and
  \<open>reason\<close> return them. The reason is a string or \<open>None\<close>.
\<close>

record CloseReason =
  code :: int
  name :: string
  reason :: "string option"

text \<open>
  \<open>ConnectionClosed\<close> is the module's own exception; its \<open>reason\<close> attribute is whatever the
  raiser passes, which is the value of \<open>_close_reason\<close> and so may in principle be \<open>None\<close>.
  The other constructors are the built-in and library exceptions the module catches or raises.
\<close>

datatype exn =
    ConnectionClosed "CloseReason option"
  | ValueError
  | TypeError
  | UnknownEvent
  | BrokenStreamError
  | ClosedResourceError
  | OtherError

section \<open>CloseReason\<close>

text \<open>
  \<open>wsframeproto.CloseReason\<close> is an integer enumeration of the framing engine, which is a
  dependency and not part of this module. Its member table is a parameter of the model: a partial
  map from member value to member name. Looking a value up (\<open>CloseReason(code)\<close>) returns the
  member or raises \<open>ValueError\<close>.
\<close>

type_synonym close_names = "int \<rightharpoonup> string"

definition wsframeproto_CloseReason :: "close_names \<Rightarrow> int \<Rightarrow> exn + string" where
  "wsframeproto_CloseReason nm c = (case nm c of None \<Rightarrow> Inl ValueError | Some n \<Rightarrow> Inr n)"

text \<open>
  \<open>CloseReason.__init__\<close>: the \<open>try\<close> block asks the engine for the name; the handler
  catches \<open>ValueError\<close> only and names the code by its range.
\<close>

definition CloseReason_init :: "close_names \<Rightarrow> int \<Rightarrow> string option \<Rightarrow> exn + CloseReason" where
  "CloseReason_init nm c r =
     (case wsframeproto_CloseReason nm c of
        Inr n \<Rightarrow> Inr \<lparr>code = c, name = n, reason = r\<rparr>
      | Inl ValueError \<Rightarrow>
          Inr \<lparr>code = c,
               name = (if 1000 \<le> c \<and> c \<le> 2999 then ''RFC_RESERVED''
                       else if 3000 \<le> c \<and> c \<le> 3999 then ''IANA_RESERVED''
                       else if 4000 \<le> c \<and> c \<le> 4999 then ''PRIVATE_RESERVED''
                       else ''INVALID_CODE''),
               reason = r\<rparr>
      | Inl e \<Rightarrow> Inl e)"

text \<open>
  Modelled from the spec: the engine's enumeration is not part of the repository. The sample
  table holds the two members that the module and its specification name: \<open>NORMAL_CLOSURE\<close>
  with value 1000 (section 8) and \<open>ABNORMAL_CLOSURE\<close> with value 1006 (section 4.2 and
  line 278 of the module).
\<close>

definition sample_names :: close_names where
  "sample_names = [1000 \<mapsto> ''NORMAL_CLOSURE'', 1006 \<mapsto> ''ABNORMAL_CLOSURE'']"

section \<open>External collaborators\<close>

text \<open>
  The framing engine (\<open>wsproto\<close>) and the byte stream (a Trio stream) are dependencies. The
  model keeps what the module asks of them: the engine's role, fixed when it is constructed, the
  list of calls made on the engine, the list of chunks handed to \<open>send_all\<close> and the number of
  \<open>aclose\<close> calls. What they answer (the bytes received, the events produced, the value of the
  engine's \<open>closed\<close> property, an exception raised by the stream) is an input of the function that
  asks.
\<close>

datatype ws_call =
    Accept
  | Close int "string option"
  | Ping message
  | Send_data message
  | Receive_bytes bytes

record wsproto =
  ws_client :: bool
  ws_calls :: "ws_call list"

definition ws_do :: "wsproto \<Rightarrow> ws_call \<Rightarrow> wsproto" where
  "ws_do w k = w\<lparr>ws_calls := ws_calls w @ [k]\<rparr>"

record stream =
  st_sent :: "bytes list"
  st_aclose_calls :: nat

text \<open>The events of \<open>wsproto.events\<close> that the module tells apart, and any other event.\<close>

datatype event =
    ConnectionRequested
  | ConnectionEstablished
  | ConnectionClosed_event int "string option"
  | BytesReceived bytes bool
  | TextReceived string bool
  | PingReceived bytes
  | PongReceived bytes
  | Other_event

section \<open>WebSocketConnection\<close>

text \<open>
  The message channel is a \<open>trio.Queue(0)\<close>: it buffers nothing, so an item is handed from
  the task that puts to a task that is suspended in \<open>get\<close>. The model keeps the list of items
  handed over, in order (\<open>message_queue\<close>), and the number of tasks suspended in \<open>get\<close>
  (\<open>getters\<close>). A \<open>trio.Event\<close> is a flag. The attribute \<open>close_creason\<close> is the one
  that line 277 creates; it does not exist before (\<open>None\<close>).
\<close>

datatype queue_item = Item message | Error exn

record connection =
  closed :: bool
  close_reason :: "CloseReason option"
  close_creason :: "CloseReason option"
  conn_id :: nat
  message_queue :: "queue_item list"
  getters :: nat
  stream :: stream
  wsproto :: wsproto
  bytes_message :: bytes
  str_message :: string
  data_pending :: bool
  data_sent :: bool
  pong_received :: bool
  reader_running :: bool
  writer_running :: bool

definition is_client :: "connection \<Rightarrow> bool" where
  "is_client c = ws_client (wsproto c)"

definition is_server :: "connection \<Rightarrow> bool" where
  "is_server c = (\<not> ws_client (wsproto c))"

text \<open>The property \<open>closed\<close> of the class returns the close reason.\<close>

definition closed_property :: "connection \<Rightarrow> CloseReason option" where
  "closed_property c = close_reason c"

text \<open>
  \<open>__init__\<close> takes the next value of the class-wide counter \<open>CONNECTION_ID\<close>; the model
  passes the counter in and returns it advanced.
\<close>

definition WebSocketConnection_init :: "nat \<Rightarrow> stream \<Rightarrow> wsproto \<Rightarrow> connection \<times> nat" where
  "WebSocketConnection_init counter st ws =
     (let c = \<lparr>closed = False, close_reason = None, close_creason = None, conn_id = counter,
                message_queue = [], getters = 0, stream = st, wsproto = ws,
                bytes_message = [], str_message = [],
                data_pending = False, data_sent = False, pong_received = False,
                reader_running = True, writer_running = True\<rparr>
      in (if is_client c then c\<lparr>data_pending := True\<rparr> else c, counter + 1))"

subsection \<open>Outcomes\<close>

text \<open>
  The tasks of a connection run on one cooperative scheduler, so the code between two suspension
  points runs without interference. A procedure of the reader or writer is modelled run to its end:
  it raises or returns, in both cases with the state it leaves behind. An operation of the
  application API is modelled up to its first suspension point: it raises, or it reaches the
  \<open>await\<close> named by a \<open>wait\<close>.
\<close>

datatype 'a outcome = Raised exn connection | Returned 'a connection

datatype wait = Wait_closed | Wait_message | Wait_pong_received | Wait_data_sent

datatype call = Raises exn connection | Awaits wait connection

definition and_then :: "'a outcome \<Rightarrow> (connection \<Rightarrow> 'b outcome) \<Rightarrow> 'b outcome" where
  "and_then r f = (case r of Raised e c \<Rightarrow> Raised e c | Returned _ c \<Rightarrow> f c)"

subsection \<open>Application API\<close>

text \<open>
  \<open>if self._close_reason:\<close> tests truthiness. \<open>CloseReason\<close> defines neither \<open>__bool__\<close>
  nor \<open>__len__\<close>, so every instance is true and \<open>None\<close> is false.
\<close>

fun truthy :: "CloseReason option \<Rightarrow> bool" where
  "truthy None = False"
| "truthy (Some r) = True"

definition close :: "close_names \<Rightarrow> connection \<Rightarrow> int \<Rightarrow> string option \<Rightarrow> call" where
  "close nm c cd rs =
     (if truthy (close_reason c) then Raises (ConnectionClosed (close_reason c)) c
      else
        let c1 = c\<lparr>wsproto := ws_do (wsproto c) (Close cd rs)\<rparr> in
        (case CloseReason_init nm cd rs of
           Inl e \<Rightarrow> Raises e c1
         | Inr cr \<Rightarrow> Awaits Wait_closed (c1\<lparr>close_reason := Some cr, data_pending := True\<rparr>)))"

text \<open>A task that reaches \<open>await self._message_queue.get()\<close> is suspended in \<open>get\<close>.\<close>

definition get_message :: "connection \<Rightarrow> call" where
  "get_message c =
     (if truthy (close_reason c) then Raises (ConnectionClosed (close_reason c)) c
      else Awaits Wait_message (c\<lparr>getters := getters c + 1\<rparr>))"

text \<open>The rest of \<open>get_message\<close>, once the channel has handed over \<open>next_\<close>.\<close>

definition get_message_resume :: "queue_item \<Rightarrow> exn + message" where
  "get_message_resume next_item = (case next_item of Error e \<Rightarrow> Inl e | Item m \<Rightarrow> Inr m)"

definition ping :: "connection \<Rightarrow> message \<Rightarrow> call" where
  "ping c payload =
     (if truthy (close_reason c) then Raises (ConnectionClosed (close_reason c)) c
      else Awaits Wait_pong_received
             (c\<lparr>wsproto := ws_do (wsproto c) (Ping payload), data_pending := True\<rparr>))"

definition ping_resume :: "connection \<Rightarrow> connection" where
  "ping_resume c = c\<lparr>pong_received := False\<rparr>"

definition send_message :: "connection \<Rightarrow> message \<Rightarrow> call" where
  "send_message c m =
     (if truthy (close_reason c) then Raises (ConnectionClosed (close_reason c)) c
      else Awaits Wait_data_sent
             (c\<lparr>wsproto := ws_do (wsproto c) (Send_data m), data_pending := True\<rparr>))"

definition send_message_resume :: "connection \<Rightarrow> connection" where
  "send_message_resume c = c\<lparr>data_sent := False\<rparr>"

subsection \<open>The message channel\<close>

text \<open>
  Modelled from the spec: \<open>trio.Queue\<close> is not part of the repository. The channel is a
  zero-capacity rendezvous (section 3 and the glossary): a put completes only when a get is
  waiting. \<open>put_nowait\<close> hands the item to a task suspended in \<open>get\<close>, or raises
  \<open>WouldBlock\<close> (the model's \<open>None\<close>) when there is none (section 4.5). \<open>put\<close>
  returns once a consumer has taken the item: a waiting one, or one that arrived while \<open>put\<close>
  was suspended.
\<close>

definition put_nowait :: "connection \<Rightarrow> queue_item \<Rightarrow> connection option" where
  "put_nowait c x =
     (if 0 < getters c
      then Some (c\<lparr>message_queue := message_queue c @ [x], getters := getters c - 1\<rparr>)
      else None)"

definition put :: "connection \<Rightarrow> queue_item \<Rightarrow> connection" where
  "put c x = c\<lparr>message_queue := message_queue c @ [x], getters := getters c - 1\<rparr>"

text \<open>
  \<open>_close_message_queue\<close>: the loop puts the exception until \<open>put_nowait\<close> raises
  \<open>WouldBlock\<close>. Each round takes one waiting consumer, which is why the loop ends.
\<close>

function close_message_queue_loop :: "exn \<Rightarrow> connection \<Rightarrow> connection" where
  "close_message_queue_loop exc c =
     (case put_nowait c (Error exc) of
        None \<Rightarrow> c
      | Some c' \<Rightarrow> close_message_queue_loop exc c')"
  by pat_completeness auto
termination
  by (relation "measure (\<lambda>(exc, c). getters c)")
     (auto simp: put_nowait_def split: if_splits)

declare close_message_queue_loop.simps [simp del]

definition close_message_queue :: "connection \<Rightarrow> connection" where
  "close_message_queue c = close_message_queue_loop (ConnectionClosed (close_reason c)) c"

subsection \<open>Closing the transport\<close>

text \<open>
  \<open>_close_stream\<close>. The argument \<open>ac\<close> is what \<open>aclose\<close> does: it returns (\<open>None\<close>) or
  raises. \<open>BrokenStreamError\<close> is caught; any other exception leaves the procedure before the
  \<open>closed\<close> event is set.
\<close>

definition close_stream :: "connection \<Rightarrow> exn option \<Rightarrow> unit outcome" where
  "close_stream c ac =
     (let c1 = c\<lparr>reader_running := False, writer_running := False, data_pending := True\<rparr>;
          c2 = c1\<lparr>stream := (stream c1)\<lparr>st_aclose_calls := st_aclose_calls (stream c1) + 1\<rparr>\<rparr>
      in (case ac of
            None \<Rightarrow> Returned () (c2\<lparr>closed := True\<rparr>)
          | Some BrokenStreamError \<Rightarrow> Returned () (c2\<lparr>closed := True\<rparr>)
          | Some e \<Rightarrow> Raised e c2))"

subsection \<open>Event dispatch\<close>

text \<open>\<open>_handle_event\<close>, one equation for each branch of the \<open>isinstance\<close> chain.\<close>

fun handle_event :: "close_names \<Rightarrow> connection \<Rightarrow> event \<Rightarrow> unit outcome" where
  "handle_event nm c ConnectionRequested =
     Returned () (c\<lparr>wsproto := ws_do (wsproto c) Accept, data_pending := True\<rparr>)"
| "handle_event nm c ConnectionEstablished = Returned () c"
| "handle_event nm c (ConnectionClosed_event cd rs) =
     and_then
       (if close_reason c = None
        then (case CloseReason_init nm cd rs of
                Inl e \<Rightarrow> Raised e c
              | Inr cr \<Rightarrow> Returned () (c\<lparr>close_reason := Some cr\<rparr>))
        else Returned () c)
       (\<lambda>c1. Returned () ((close_message_queue c1)\<lparr>writer_running := False, data_pending := True\<rparr>))"
| "handle_event nm c (BytesReceived d fin) =
     (let c1 = c\<lparr>bytes_message := bytes_message c @ d\<rparr>
      in if fin
         then Returned () ((put c1 (Item (Bytes (bytes_message c1))))\<lparr>bytes_message := []\<rparr>)
         else Returned () c1)"
| "handle_event nm c (TextReceived d fin) =
     (let c1 = c\<lparr>str_message := str_message c @ d\<rparr>
      in if fin
         then Returned () ((put c1 (Item (Str (str_message c1))))\<lparr>str_message := []\<rparr>)
         else Returned () c1)"
| "handle_event nm c (PingReceived p) = Returned () (c\<lparr>data_pending := True\<rparr>)"
| "handle_event nm c (PongReceived p) = Returned () (c\<lparr>pong_received := True\<rparr>)"
| "handle_event nm c Other_event = Raised UnknownEvent c"

text \<open>The loop \<open>for event in self._wsproto.events(): await self._handle_event(event)\<close>.\<close>

fun handle_events :: "close_names \<Rightarrow> connection \<Rightarrow> event list \<Rightarrow> unit outcome" where
  "handle_events nm c [] = Returned () c"
| "handle_events nm c (ev # evs) = and_then (handle_event nm c ev) (\<lambda>c'. handle_events nm c' evs)"

subsection \<open>Reader task\<close>

text \<open>
  What the collaborators answer in one round of the reader's loop: the result of
  \<open>receive_some\<close>, the engine's \<open>closed\<close> property (read on a zero-length result), the events
  the engine produces for the bytes fed to it, and what \<open>aclose\<close> does.
\<close>

datatype received = Raise_ClosedResourceError | Data bytes

record reader_env =
  recv :: received
  engine_closed :: bool
  engine_events :: "event list"
  aclose :: "exn option"

text \<open>
  Modelled from the spec: \<open>wsframeproto.CloseReason.ABNORMAL_CLOSURE\<close> is a member of the
  engine's enumeration, which is not part of the repository; its value is 1006 (section 4.2:
  code 1006, ``abnormal closure'').
\<close>

definition ABNORMAL_CLOSURE :: int where
  "ABNORMAL_CLOSURE = 1006"

datatype loop_ctl = Continue | Break

text \<open>
  One round of the loop body of \<open>_reader_task\<close>. On a zero-length result the source assigns
  the attribute \<open>_close_creason\<close>.
\<close>

definition reader_iteration :: "close_names \<Rightarrow> connection \<Rightarrow> reader_env \<Rightarrow> loop_ctl outcome" where
  "reader_iteration nm c env =
     (case recv env of
        Raise_ClosedResourceError \<Rightarrow> Returned Break c
      | Data data \<Rightarrow>
          if length data = 0
          then and_then
                 (if \<not> engine_closed env
                  then (case CloseReason_init nm ABNORMAL_CLOSURE (Some ''TCP connection aborted'') of
                          Inl e \<Rightarrow> Raised e c
                        | Inr cr \<Rightarrow> Returned () (c\<lparr>close_creason := Some cr\<rparr>))
                  else Returned () c)
                 (\<lambda>c1. and_then (close_stream c1 (aclose env)) (\<lambda>c2. Returned Break c2))
          else and_then
                 (handle_events nm (c\<lparr>wsproto := ws_do (wsproto c) (Receive_bytes data)\<rparr>)
                    (engine_events env))
                 (\<lambda>c1. Returned Continue c1))"

text \<open>
  \<open>_reader_task\<close> on the answers of a run, one for each round. When the answers run out the
  task is suspended in \<open>receive_some\<close>.
\<close>

datatype task_end = Finished | Suspended

fun reader_task :: "close_names \<Rightarrow> connection \<Rightarrow> reader_env list \<Rightarrow> task_end outcome" where
  "reader_task nm c [] = (if reader_running c then Returned Suspended c else Returned Finished c)"
| "reader_task nm c (env # envs) =
     (if reader_running c
      then (case reader_iteration nm c env of
              Raised e c' \<Rightarrow> Raised e c'
            | Returned Break c' \<Rightarrow> Returned Finished c'
            | Returned Continue c' \<Rightarrow> reader_task nm c' envs)
      else Returned Finished c)"

subsection \<open>Writer task\<close>

text \<open>
  One round of the loop body of \<open>_writer_task\<close>, from the return of
  \<open>self._data_pending.wait()\<close>: \<open>data\<close> is the answer of \<open>bytes_to_send\<close> and \<open>sr\<close> is
  what \<open>send_all\<close> does (it returns, or raises).
\<close>

definition writer_iteration :: "connection \<Rightarrow> bytes \<Rightarrow> exn option \<Rightarrow> unit outcome" where
  "writer_iteration c data sr =
     and_then
       (if length data > 0
        then (case sr of
                Some e \<Rightarrow> Raised e c
              | None \<Rightarrow> Returned () (c\<lparr>stream := (stream c)\<lparr>st_sent := st_sent (stream c) @ [data]\<rparr>\<rparr>))
        else Returned () c)
       (\<lambda>c1. Returned () (c1\<lparr>data_pending := False, data_sent := True\<rparr>))"

text \<open>The statements of \<open>_writer_task\<close> after its loop.\<close>

definition writer_exit :: "connection \<Rightarrow> exn option \<Rightarrow> unit outcome" where
  "writer_exit c ac = (if is_server c then close_stream c ac else Returned () c)"

text \<open>
  \<open>_writer_task\<close> on the answers of a run. The flag \<open>_writer_running\<close> is cleared by the
  other tasks while the writer is suspended, so a run of the writer alone leaves the loop only
  where it finds the flag cleared.
\<close>

fun writer_task :: "connection \<Rightarrow> (bytes \<times> exn option) list \<Rightarrow> exn option \<Rightarrow> task_end outcome" where
  "writer_task c [] ac =
     (if writer_running c then Returned Suspended c
      else and_then (writer_exit c ac) (\<lambda>c'. Returned Finished c'))"
| "writer_task c ((data, sr) # rest) ac =
     (if writer_running c
      then and_then (writer_iteration c data sr) (\<lambda>c'. writer_task c' rest ac)
      else and_then (writer_exit c ac) (\<lambda>c'. Returned Finished c'))"

section \<open>WebSocketClient\<close>

text \<open>
  The constructor accepts any Python value for \<open>use_ssl\<close>. The values of the model are
  \<open>None\<close>, the booleans, the integers, strings and \<open>SSLContext\<close> objects (told apart by their
  identity). \<open>py_eq\<close> is Python's \<open>==\<close> on them: \<open>bool\<close> is a subclass of \<open>int\<close> with
  \<open>True == 1\<close> and \<open>False == 0\<close>, and an \<open>SSLContext\<close> is equal to itself only.
\<close>

datatype pyval = PyNone | PyBool bool | PyInt int | PyStr string | PySSLContext nat

definition int_of_bool :: "bool \<Rightarrow> int" where
  "int_of_bool b = (if b then 1 else 0)"

fun py_eq :: "pyval \<Rightarrow> pyval \<Rightarrow> bool" where
  "py_eq PyNone PyNone = True"
| "py_eq (PyBool a) (PyBool b) = (a = b)"
| "py_eq (PyBool a) (PyInt j) = (int_of_bool a = j)"
| "py_eq (PyInt i) (PyBool b) = (i = int_of_bool b)"
| "py_eq (PyInt i) (PyInt j) = (i = j)"
| "py_eq (PyStr s) (PyStr t) = (s = t)"
| "py_eq (PySSLContext k) (PySSLContext l) = (k = l)"
| "py_eq _ _ = False"

text \<open>
  The TLS context stored in \<open>_ssl\<close>: the one \<open>ssl.create_default_context()\<close> makes, or the
  object the caller passed.
\<close>

datatype ssl_context = Default_context | Given_context nat

record WebSocketClient =
  host :: string
  port :: int
  resource :: string
  ssl :: "ssl_context option"

definition WebSocketClient_init :: "string \<Rightarrow> int \<Rightarrow> string \<Rightarrow> pyval \<Rightarrow> exn + WebSocketClient" where
  "WebSocketClient_init h p rsrc use_ssl =
     (if py_eq use_ssl (PyBool True)
      then Inr \<lparr>host = h, port = p, resource = rsrc, ssl = Some Default_context\<rparr>
      else if py_eq use_ssl (PyBool False)
      then Inr \<lparr>host = h, port = p, resource = rsrc, ssl = None\<rparr>
      else (case use_ssl of
              PySSLContext k \<Rightarrow> Inr \<lparr>host = h, port = p, resource = rsrc, ssl = Some (Given_context k)\<rparr>
            | _ \<Rightarrow> Inl TypeError))"

section \<open>Observation and sample states\<close>

text \<open>The state a procedure leaves behind, however it ends.\<close>

definition state_of :: "'a outcome \<Rightarrow> connection" where
  "state_of r = (case r of Raised e c \<Rightarrow> c | Returned v c \<Rightarrow> c)"

text \<open>A fresh transport, and the connection the dialer constructs on it (client role).\<close>

definition new_stream :: stream where
  "new_stream = \<lparr>st_sent = [], st_aclose_calls = 0\<rparr>"

definition client_connection :: connection where
  "client_connection =
     fst (WebSocketConnection_init 0 new_stream \<lparr>ws_client = True, ws_calls = []\<rparr>)"

text \<open>
  An inbound message as the engine reports it: the data of the fragments that do not finish the
  message, in arrival order, and the data of the fragment that does. \<open>events_of\<close> is the
  sequence of events and \<open>payload_of\<close> the payload the peer sent.
\<close>

datatype inbound = Binary "bytes list" bytes | Text "string list" string

fun events_of :: "inbound \<Rightarrow> event list" where
  "events_of (Binary ds d) = map (\<lambda>x. BytesReceived x False) ds @ [BytesReceived d True]"
| "events_of (Text ts t) = map (\<lambda>x. TextReceived x False) ts @ [TextReceived t True]"

fun payload_of :: "inbound \<Rightarrow> message" where
  "payload_of (Binary ds d) = Bytes (concat (ds @ [d]))"
| "payload_of (Text ts t) = Str (concat (ts @ [t]))"

section \<open>Properties of CloseReason\<close>

lemma CloseReason_init_known:
  "nm c = Some n \<Longrightarrow> CloseReason_init nm c r = Inr \<lparr>code = c, name = n, reason = r\<rparr>"
  by (simp add: CloseReason_init_def wsframeproto_CloseReason_def)

lemma CloseReason_init_unknown:
  "nm c = None \<Longrightarrow>
   CloseReason_init nm c r =
     Inr \<lparr>code = c,
          name = (if 1000 \<le> c \<and> c \<le> 2999 then ''RFC_RESERVED''
                  else if 3000 \<le> c \<and> c \<le> 3999 then ''IANA_RESERVED''
                  else if 4000 \<le> c \<and> c \<le> 4999 then ''PRIVATE_RESERVED''
                  else ''INVALID_CODE''),
          reason = r\<rparr>"
  by (simp add: CloseReason_init_def wsframeproto_CloseReason_def)

lemma CloseReason_init_total:
  "CloseReason_init nm c r =
     Inr \<lparr>code = c,
          name = (case nm c of
                    Some n \<Rightarrow> n
                  | None \<Rightarrow>
                      if 1000 \<le> c \<and> c \<le> 2999 then ''RFC_RESERVED''
                      else if 3000 \<le> c \<and> c \<le> 3999 then ''IANA_RESERVED''
                      else if 4000 \<le> c \<and> c \<le> 4999 then ''PRIVATE_RESERVED''
                      else ''INVALID_CODE''),
          reason = r\<rparr>"
  by (cases "nm c") (simp_all add: CloseReason_init_known CloseReason_init_unknown)

text \<open>
  Claim C4. For every integer close code the name of a \<open>CloseReason\<close> is the engine's name for
  the code when the engine's enumeration has a member with that value; otherwise it is
  \<open>RFC_RESERVED\<close> for 1000 to 2999, \<open>IANA_RESERVED\<close> for 3000 to 3999, \<open>PRIVATE_RESERVED\<close>
  for 4000 to 4999 and \<open>INVALID_CODE\<close> for every other code. In particular, with an engine
  that names 1000 \<open>NORMAL_CLOSURE\<close> and has no member for 3500, 4500 and 70000, these codes
  get the names \<open>NORMAL_CLOSURE\<close>, \<open>IANA_RESERVED\<close>, \<open>PRIVATE_RESERVED\<close> and
  \<open>INVALID_CODE\<close>.
\<close>

theorem CloseReason_name_by_code:
  "CloseReason_init nm c r =
     Inr \<lparr>code = c,
          name = (case nm c of
                    Some n \<Rightarrow> n
                  | None \<Rightarrow>
                      if 1000 \<le> c \<and> c \<le> 2999 then ''RFC_RESERVED''
                      else if 3000 \<le> c \<and> c \<le> 3999 then ''IANA_RESERVED''
                      else if 4000 \<le> c \<and> c \<le> 4999 then ''PRIVATE_RESERVED''
                      else ''INVALID_CODE''),
          reason = r\<rparr>
   \<and> (nm 1000 = Some ''NORMAL_CLOSURE'' \<longrightarrow>
        CloseReason_init nm 1000 r = Inr \<lparr>code = 1000, name = ''NORMAL_CLOSURE'', reason = r\<rparr>)
   \<and> (nm 3500 = None \<longrightarrow>
        CloseReason_init nm 3500 r = Inr \<lparr>code = 3500, name = ''IANA_RESERVED'', reason = r\<rparr>)
   \<and> (nm 4500 = None \<longrightarrow>
        CloseReason_init nm 4500 r = Inr \<lparr>code = 4500, name = ''PRIVATE_RESERVED'', reason = r\<rparr>)
   \<and> (nm 70000 = None \<longrightarrow>
        CloseReason_init nm 70000 r = Inr \<lparr>code = 70000, name = ''INVALID_CODE'', reason = r\<rparr>)"
  by (simp add: CloseReason_init_total)

theorem CloseReason_name_by_code_witness:
  "sample_names 1000 = Some ''NORMAL_CLOSURE'' \<and> sample_names 3500 = None
   \<and> sample_names 4500 = None \<and> sample_names 70000 = None
   \<and> CloseReason_init sample_names 1000 None =
       Inr \<lparr>code = 1000, name = ''NORMAL_CLOSURE'', reason = None\<rparr>
   \<and> CloseReason_init sample_names 3500 None =
       Inr \<lparr>code = 3500, name = ''IANA_RESERVED'', reason = None\<rparr>
   \<and> CloseReason_init sample_names 4500 None =
       Inr \<lparr>code = 4500, name = ''PRIVATE_RESERVED'', reason = None\<rparr>
   \<and> CloseReason_init sample_names 70000 None =
       Inr \<lparr>code = 70000, name = ''INVALID_CODE'', reason = None\<rparr>
   \<and> CloseReason_init sample_names 1004 None =
       Inr \<lparr>code = 1004, name = ''RFC_RESERVED'', reason = None\<rparr>"
proof -
  have t: "sample_names 1000 = Some ''NORMAL_CLOSURE''" "sample_names 3500 = None"
    "sample_names 4500 = None" "sample_names 70000 = None" "sample_names 1004 = None"
    by (simp_all add: sample_names_def)
  from CloseReason_name_by_code [of sample_names 1004 None] t show ?thesis by simp
qed

text \<open>
  Claim C10. The constructor of \<open>CloseReason\<close> returns for every integer code and every reason
  (a string or \<open>None\<close>): it never raises. The properties \<open>code\<close> and \<open>reason\<close> of the
  object are the arguments, and \<open>name\<close> is assigned: a name of the engine's enumeration or one
  of the four range names.
\<close>

theorem CloseReason_init_never_raises:
  "\<exists>cr. CloseReason_init nm c r = Inr cr \<and> code cr = c \<and> reason cr = r
     \<and> (name cr \<in> ran nm
        \<or> name cr \<in> {''RFC_RESERVED'', ''IANA_RESERVED'', ''PRIVATE_RESERVED'', ''INVALID_CODE''})"
proof (cases "nm c")
  case None
  then show ?thesis by (simp add: CloseReason_init_unknown)
next
  case (Some n)
  then have "n \<in> ran nm" by (auto simp: ran_def)
  with Some show ?thesis by (simp add: CloseReason_init_known)
qed

section \<open>Construction\<close>

text \<open>
  Claim C8. A connection constructed on a client-role engine has \<open>data_pending\<close> set when the
  constructor returns; one constructed on a server-role engine has it clear.
\<close>

theorem data_pending_initially:
  "data_pending (fst (WebSocketConnection_init n st ws)) =
     is_client (fst (WebSocketConnection_init n st ws))
   \<and> is_client (fst (WebSocketConnection_init n st ws)) = ws_client ws
   \<and> is_server (fst (WebSocketConnection_init n st ws)) = (\<not> ws_client ws)"
  by (simp add: WebSocketConnection_init_def is_client_def is_server_def Let_def)

lemma client_connection_fields:
  "close_reason client_connection = None"
  "message_queue client_connection = []"
  "bytes_message client_connection = []"
  "str_message client_connection = []"
  "getters client_connection = 0"
  "wsproto client_connection = \<lparr>ws_client = True, ws_calls = []\<rparr>"
  "data_pending client_connection"
  by (simp_all add: client_connection_def WebSocketConnection_init_def is_client_def Let_def)

section \<open>The guard of the application API\<close>

text \<open>
  Claim C2. In every state of a connection whose close reason is set, each of
  \<open>send_message\<close>, \<open>get_message\<close>, \<open>ping\<close> and \<open>close\<close> raises \<open>ConnectionClosed\<close>
  carrying that close reason, and leaves the state as it found it: nothing is asked of the
  engine, no signal is raised and the close reason is not replaced.
\<close>

theorem closed_connection_raises:
  assumes "close_reason c = Some r"
  shows "send_message c m = Raises (ConnectionClosed (Some r)) c
       \<and> get_message c = Raises (ConnectionClosed (Some r)) c
       \<and> ping c p = Raises (ConnectionClosed (Some r)) c
       \<and> close nm c cd rs = Raises (ConnectionClosed (Some r)) c"
  using assms by (simp add: send_message_def get_message_def ping_def close_def)

theorem closed_connection_raises_witness:
  "close_reason
     (client_connection
        \<lparr>close_reason := Some \<lparr>code = 1000, name = ''NORMAL_CLOSURE'', reason = Some ''bye''\<rparr>\<rparr>)
     = Some \<lparr>code = 1000, name = ''NORMAL_CLOSURE'', reason = Some ''bye''\<rparr>
   \<and> send_message
       (client_connection
          \<lparr>close_reason := Some \<lparr>code = 1000, name = ''NORMAL_CLOSURE'', reason = Some ''bye''\<rparr>\<rparr>)
       (Str ''hello'')
     = Raises
         (ConnectionClosed (Some \<lparr>code = 1000, name = ''NORMAL_CLOSURE'', reason = Some ''bye''\<rparr>))
         (client_connection
            \<lparr>close_reason := Some \<lparr>code = 1000, name = ''NORMAL_CLOSURE'', reason = Some ''bye''\<rparr>\<rparr>)
   \<and> get_message
       (client_connection
          \<lparr>close_reason := Some \<lparr>code = 1000, name = ''NORMAL_CLOSURE'', reason = Some ''bye''\<rparr>\<rparr>)
     = Raises
         (ConnectionClosed (Some \<lparr>code = 1000, name = ''NORMAL_CLOSURE'', reason = Some ''bye''\<rparr>))
         (client_connection
            \<lparr>close_reason := Some \<lparr>code = 1000, name = ''NORMAL_CLOSURE'', reason = Some ''bye''\<rparr>\<rparr>)
   \<and> ping
       (client_connection
          \<lparr>close_reason := Some \<lparr>code = 1000, name = ''NORMAL_CLOSURE'', reason = Some ''bye''\<rparr>\<rparr>)
       (Bytes [0, 1])
     = Raises
         (ConnectionClosed (Some \<lparr>code = 1000, name = ''NORMAL_CLOSURE'', reason = Some ''bye''\<rparr>))
         (client_connection
            \<lparr>close_reason := Some \<lparr>code = 1000, name = ''NORMAL_CLOSURE'', reason = Some ''bye''\<rparr>\<rparr>)
   \<and> close sample_names
       (client_connection
          \<lparr>close_reason := Some \<lparr>code = 1000, name = ''NORMAL_CLOSURE'', reason = Some ''bye''\<rparr>\<rparr>)
       1001 None
     = Raises
         (ConnectionClosed (Some \<lparr>code = 1000, name = ''NORMAL_CLOSURE'', reason = Some ''bye''\<rparr>))
         (client_connection
            \<lparr>close_reason := Some \<lparr>code = 1000, name = ''NORMAL_CLOSURE'', reason = Some ''bye''\<rparr>\<rparr>)"
proof -
  let ?r = "\<lparr>code = 1000, name = ''NORMAL_CLOSURE'', reason = Some ''bye''\<rparr>"
  let ?c = "client_connection\<lparr>close_reason := Some ?r\<rparr>"
  have h: "close_reason ?c = Some ?r" by simp
  from closed_connection_raises [OF h, of "Str ''hello''" "Bytes [0, 1]" sample_names 1001 None] h
  show ?thesis by simp
qed

section \<open>close\<close>

text \<open>
  Claim C5. Called on a connection with no close reason, \<open>close\<close> asks the engine for a close
  frame with the given code and reason, sets the close reason to the \<open>CloseReason\<close> built from
  these arguments, raises \<open>data_pending\<close> and reaches the wait for the \<open>closed\<close> signal. A
  second call, with any arguments, raises \<open>ConnectionClosed\<close> with the reason the first call
  set, and changes nothing.
\<close>

theorem close_sets_local_reason:
  assumes "close_reason c = None"
  shows "\<exists>cr c'. CloseReason_init nm cd rs = Inr cr \<and> code cr = cd \<and> reason cr = rs
           \<and> close nm c cd rs = Awaits Wait_closed c'
           \<and> c' = c\<lparr>wsproto := ws_do (wsproto c) (Close cd rs), close_reason := Some cr,
                      data_pending := True\<rparr>
           \<and> ws_calls (wsproto c') = ws_calls (wsproto c) @ [Close cd rs]
           \<and> close_reason c' = Some cr
           \<and> data_pending c'
           \<and> close nm c' cd2 rs2 = Raises (ConnectionClosed (Some cr)) c'"
  using assms
  by (simp add: close_def CloseReason_init_total Let_def ws_do_def)

theorem close_sets_local_reason_witness:
  "close_reason client_connection = None
   \<and> close sample_names client_connection 1000 (Some ''bye'') =
       Awaits Wait_closed
         (client_connection
            \<lparr>wsproto := \<lparr>ws_client = True, ws_calls = [Close 1000 (Some ''bye'')]\<rparr>,
              close_reason := Some \<lparr>code = 1000, name = ''NORMAL_CLOSURE'', reason = Some ''bye''\<rparr>,
              data_pending := True\<rparr>)
   \<and> close sample_names
       (client_connection
          \<lparr>wsproto := \<lparr>ws_client = True, ws_calls = [Close 1000 (Some ''bye'')]\<rparr>,
            close_reason := Some \<lparr>code = 1000, name = ''NORMAL_CLOSURE'', reason = Some ''bye''\<rparr>,
            data_pending := True\<rparr>)
       1001 None =
       Raises
         (ConnectionClosed (Some \<lparr>code = 1000, name = ''NORMAL_CLOSURE'', reason = Some ''bye''\<rparr>))
         (client_connection
            \<lparr>wsproto := \<lparr>ws_client = True, ws_calls = [Close 1000 (Some ''bye'')]\<rparr>,
              close_reason := Some \<lparr>code = 1000, name = ''NORMAL_CLOSURE'', reason = Some ''bye''\<rparr>,
              data_pending := True\<rparr>)"
proof -
  have h: "close_reason client_connection = None"
    by (simp add: client_connection_fields)
  have n: "CloseReason_init sample_names 1000 (Some ''bye'') =
      Inr \<lparr>code = 1000, name = ''NORMAL_CLOSURE'', reason = Some ''bye''\<rparr>"
    by (simp add: CloseReason_init_known sample_names_def)
  from close_sets_local_reason [OF h, of sample_names 1000 "Some ''bye''" 1001 None] h n
  show ?thesis by (simp add: ws_do_def client_connection_fields)
qed

section \<open>The connection-closed event\<close>

lemma close_message_queue_loop_eq:
  "close_message_queue_loop exc c =
     c\<lparr>message_queue := message_queue c @ replicate (getters c) (Error exc), getters := 0\<rparr>"
proof (induction exc c rule: close_message_queue_loop.induct)
  case (1 exc c)
  show ?case
  proof (cases "getters c")
    case 0
    then show ?thesis
      by (simp add: close_message_queue_loop.simps [of exc c] put_nowait_def)
  next
    case (Suc n)
    then have p: "put_nowait c (Error exc) =
        Some (c\<lparr>message_queue := message_queue c @ [Error exc], getters := n\<rparr>)"
      by (simp add: put_nowait_def)
    from "1.IH" [OF p] p Suc show ?thesis
      by (simp add: close_message_queue_loop.simps [of exc c] replicate_app_Cons_same)
  qed
qed

lemma close_message_queue_eq:
  "close_message_queue c =
     c\<lparr>message_queue :=
          message_queue c @ replicate (getters c) (Error (ConnectionClosed (close_reason c))),
        getters := 0\<rparr>"
  by (simp add: close_message_queue_def close_message_queue_loop_eq)

text \<open>
  Claim C6. Handling a connection-closed event returns, and in the state it leaves: the close
  reason is the one set before when there was one, and otherwise the \<open>CloseReason\<close> built from
  the event's code and reason; every task that was suspended in \<open>get_message\<close> has been handed
  the \<open>ConnectionClosed\<close> exception carrying that close reason, and no task is left waiting;
  \<open>writer_running\<close> is false and \<open>data_pending\<close> is raised.
\<close>

theorem connection_closed_event:
  "\<exists>cr c'. CloseReason_init nm cd rs = Inr cr \<and> code cr = cd \<and> reason cr = rs
     \<and> handle_event nm c (ConnectionClosed_event cd rs) = Returned () c'
     \<and> close_reason c' = Some (case close_reason c of None \<Rightarrow> cr | Some r \<Rightarrow> r)
     \<and> message_queue c' =
         message_queue c @ replicate (getters c) (Error (ConnectionClosed (close_reason c')))
     \<and> getters c' = 0
     \<and> writer_running c' = False
     \<and> data_pending c' = True"
proof (cases "close_reason c")
  case None
  then show ?thesis
    by (simp add: and_then_def CloseReason_init_total close_message_queue_eq)
next
  case (Some r)
  then show ?thesis
    by (simp add: and_then_def CloseReason_init_total close_message_queue_eq)
qed

section \<open>Leaving the writer's loop\<close>

lemma close_stream_None:
  "close_stream c None =
     Returned () (c\<lparr>reader_running := False, writer_running := False, data_pending := True,
                    stream := (stream c)\<lparr>st_aclose_calls := st_aclose_calls (stream c) + 1\<rparr>,
                    closed := True\<rparr>)"
  by (simp add: close_stream_def Let_def)

lemma close_stream_Broken: "close_stream c (Some BrokenStreamError) = close_stream c None"
  by (simp add: close_stream_def Let_def)

lemma close_stream_calls:
  "st_aclose_calls (stream (state_of (close_stream c ac))) = st_aclose_calls (stream c) + 1"
  by (simp add: close_stream_def Let_def state_of_def split: option.splits exn.splits)

text \<open>The writer task, once it finds \<open>writer_running\<close> cleared, runs the statements after the loop.\<close>

lemma writer_task_exit:
  "\<not> writer_running c \<Longrightarrow>
   writer_task c ins ac = and_then (writer_exit c ac) (\<lambda>c'. Returned Finished c')"
  by (cases ins) auto

text \<open>
  Claim C7. The statements after the writer's loop run the transport-close procedure exactly when
  the connection is in the server role. On a server, with \<open>aclose\<close> returning or raising
  \<open>BrokenStreamError\<close>, both liveness flags are false, \<open>data_pending\<close> is raised, the
  transport has been closed and the \<open>closed\<close> signal is raised. On a client the writer returns
  with the state as it was: \<open>aclose\<close> is not called. Whatever \<open>aclose\<close> does, it is called
  once if and only if the connection is a server.
\<close>

theorem writer_exit_closes_iff_server:
  "writer_exit c None =
     Returned () (if is_server c
                  then c\<lparr>reader_running := False, writer_running := False, data_pending := True,
                          stream := (stream c)\<lparr>st_aclose_calls := st_aclose_calls (stream c) + 1\<rparr>,
                          closed := True\<rparr>
                  else c)
   \<and> writer_exit c (Some BrokenStreamError) = writer_exit c None
   \<and> (st_aclose_calls (stream (state_of (writer_exit c ac))) = st_aclose_calls (stream c) + 1)
       = is_server c
   \<and> (state_of (writer_exit c ac) = c) = is_client c
   \<and> is_client c = (\<not> is_server c)"
proof (cases "is_server c")
  case True
  have "state_of (close_stream c ac) \<noteq> c"
  proof
    assume "state_of (close_stream c ac) = c"
    then have "st_aclose_calls (stream (state_of (close_stream c ac))) = st_aclose_calls (stream c)"
      by simp
    then show False by (simp add: close_stream_calls)
  qed
  with True show ?thesis
    by (simp add: writer_exit_def close_stream_None close_stream_Broken close_stream_calls
        is_client_def is_server_def)
next
  case False
  then show ?thesis
    by (simp add: writer_exit_def state_of_def is_client_def is_server_def)
qed

section \<open>Reassembly of fragmented messages\<close>

lemma and_then_Returned: "and_then (Returned v c) f = f c"
  by (simp add: and_then_def)

lemma and_then_Raised: "and_then (Raised e c) f = Raised e c"
  by (simp add: and_then_def)

lemma handle_events_append:
  "handle_events nm c (xs @ ys) = and_then (handle_events nm c xs) (\<lambda>c'. handle_events nm c' ys)"
proof (induction xs arbitrary: c)
  case Nil
  show ?case by (simp add: and_then_Returned)
next
  case (Cons x xs)
  show ?case
  proof (cases "handle_event nm c x")
    case (Raised e c1)
    then show ?thesis by (simp add: and_then_Raised)
  next
    case (Returned u c1)
    then show ?thesis by (simp add: and_then_Returned Cons.IH)
  qed
qed

text \<open>Fragments that do not finish a message grow the accumulator and publish nothing.\<close>

lemma bytes_fragments_accumulate:
  "handle_events nm c (map (\<lambda>x. BytesReceived x False) ds) =
     Returned () (c\<lparr>bytes_message := bytes_message c @ concat ds\<rparr>)"
  by (induction ds arbitrary: c) (simp_all add: and_then_Returned)

lemma text_fragments_accumulate:
  "handle_events nm c (map (\<lambda>x. TextReceived x False) ts) =
     Returned () (c\<lparr>str_message := str_message c @ concat ts\<rparr>)"
  by (induction ts arbitrary: c) (simp_all add: and_then_Returned)

text \<open>
  The whole message, from any state: what is published is the accumulator's content at the start
  followed by the fragments.
\<close>

lemma bytes_message_complete:
  "handle_events nm c (map (\<lambda>x. BytesReceived x False) ds @ [BytesReceived d True]) =
     Returned ()
       (c\<lparr>message_queue := message_queue c @ [Item (Bytes (bytes_message c @ concat ds @ d))],
          getters := getters c - 1, bytes_message := []\<rparr>)"
  by (simp add: handle_events_append bytes_fragments_accumulate and_then_Returned put_def)

lemma text_message_complete:
  "handle_events nm c (map (\<lambda>x. TextReceived x False) ts @ [TextReceived t True]) =
     Returned ()
       (c\<lparr>message_queue := message_queue c @ [Item (Str (str_message c @ concat ts @ t))],
          getters := getters c - 1, str_message := []\<rparr>)"
  by (simp add: handle_events_append text_fragments_accumulate and_then_Returned put_def)



text \<open>
  Messages that follow one another, of either type: each is published once, in arrival order,
  and both accumulators are empty at every message boundary.
\<close>

lemma messages_published_in_order:
  "bytes_message c = [] \<Longrightarrow> str_message c = [] \<Longrightarrow>
   \<exists>c'. handle_events nm c (concat (map events_of ms)) = Returned () c'
      \<and> message_queue c' = message_queue c @ map (\<lambda>m. Item (payload_of m)) ms
      \<and> bytes_message c' = [] \<and> str_message c' = []"
proof (induction ms arbitrary: c)
  case Nil
  then show ?case by simp
next
  case (Cons m ms)
  obtain c1 where c1: "handle_events nm c (events_of m) = Returned () c1"
    and q1: "message_queue c1 = message_queue c @ [Item (payload_of m)]"
    and b1: "bytes_message c1 = []" and s1: "str_message c1 = []"
    using Cons.prems
    by (cases m) (simp_all add: bytes_message_complete text_message_complete)
  from Cons.IH [OF b1 s1] obtain c' where
    "handle_events nm c1 (concat (map events_of ms)) = Returned () c'"
    "message_queue c' = message_queue c1 @ map (\<lambda>m. Item (payload_of m)) ms"
    "bytes_message c' = []" "str_message c' = []"
    by blast
  with c1 q1 show ?case
    by (simp add: handle_events_append and_then_Returned del: events_of.simps)
qed

section \<open>The close reason, once set, stays\<close>

text \<open>
  No procedure of the reader or the writer replaces a close reason that is set, so the reason
  the guard of the API raises with is the first one assigned.
\<close>

lemma handle_event_keeps_reason:
  "close_reason c = Some r \<Longrightarrow> close_reason (state_of (handle_event nm c ev)) = Some r"
  by (cases ev) (simp_all add: state_of_def and_then_def close_message_queue_eq put_def Let_def)

lemma handle_events_keeps_reason:
  "close_reason c = Some r \<Longrightarrow> close_reason (state_of (handle_events nm c evs)) = Some r"
proof (induction evs arbitrary: c)
  case Nil
  then show ?case by (simp add: state_of_def)
next
  case (Cons ev evs)
  from handle_event_keeps_reason [OF Cons.prems, of nm ev] show ?case
    by (cases "handle_event nm c ev")
       (simp_all add: and_then_def state_of_def Cons.IH [unfolded state_of_def])
qed

lemma close_stream_keeps_reason:
  "close_reason (state_of (close_stream c ac)) = close_reason c"
  by (simp add: close_stream_def Let_def state_of_def split: option.splits exn.splits)

lemma reader_iteration_keeps_reason:
  "close_reason c = Some r \<Longrightarrow> close_reason (state_of (reader_iteration nm c env)) = Some r"
proof (cases "recv env")
  case Raise_ClosedResourceError
  assume "close_reason c = Some r"
  with Raise_ClosedResourceError show ?thesis
    by (simp add: reader_iteration_def state_of_def)
next
  case (Data data)
  assume r: "close_reason c = Some r"
  show ?thesis
  proof (cases "data = []")
    case True
    with Data r show ?thesis
      by (simp add: reader_iteration_def and_then_def CloseReason_init_total close_stream_def
          Let_def state_of_def split: option.splits exn.splits)
  next
    case False
    let ?c1 = "c\<lparr>wsproto := ws_do (wsproto c) (Receive_bytes data)\<rparr>"
    from r have "close_reason ?c1 = Some r" by simp
    from handle_events_keeps_reason [OF this, of nm "engine_events env"] False Data
    show ?thesis
      by (cases "handle_events nm ?c1 (engine_events env)")
         (simp_all add: reader_iteration_def and_then_def state_of_def)
  qed
qed

lemma writer_keeps_reason:
  "close_reason (state_of (writer_iteration c data sr)) = close_reason c"
  "close_reason (state_of (writer_exit c ac)) = close_reason c"
  by (simp_all add: writer_iteration_def writer_exit_def and_then_def close_stream_def Let_def
      state_of_def split: option.splits exn.splits)

section \<open>A zero-length read\<close>

text \<open>The reader task ends on a zero-length read, with the transport closed.\<close>

lemma reader_task_zero_bytes:
  "reader_running c \<Longrightarrow> recv env = Data [] \<Longrightarrow> aclose env = None \<Longrightarrow>
   \<exists>c'. reader_task nm c (env # envs) = Returned Finished c'
      \<and> close_reason c' = close_reason c \<and> closed c'
      \<and> \<not> reader_running c' \<and> \<not> writer_running c'"
  by (simp add: reader_iteration_def and_then_def CloseReason_init_total close_stream_def Let_def)

text \<open>
  Claim C1 says that a zero-length result of \<open>receive_some\<close>, with the engine not yet closed,
  sets the connection's close reason to code 1006 with the reason ``TCP connection aborted''.
  The source assigns the attribute \<open>_close_creason\<close> there, so the close reason stays as it was:
  for every state and every answer of the collaborators a zero-length read leaves
  \<open>close_reason\<close> unchanged. On a fresh client connection the round ends with the transport
  closed and the \<open>closed\<close> signal raised, the abnormal-closure reason stored in
  \<open>close_creason\<close>, the close reason and the \<open>closed\<close> property still \<open>None\<close>, and
  \<open>send_message\<close> and \<open>get_message\<close> pass the guard instead of raising
  \<open>ConnectionClosed\<close>.
\<close>

theorem zero_bytes_close_reason_not_set:
  "close_reason (state_of (reader_iteration nm c (env\<lparr>recv := Data []\<rparr>))) = close_reason c
   \<and> (\<exists>c'. reader_iteration sample_names client_connection
              \<lparr>recv = Data [], engine_closed = False, engine_events = [], aclose = None\<rparr>
            = Returned Break c'
         \<and> close_creason c' =
             Some \<lparr>code = 1006, name = ''ABNORMAL_CLOSURE'',
                   reason = Some ''TCP connection aborted''\<rparr>
         \<and> close_reason c' = None
         \<and> closed_property c' = None
         \<and> closed c'
         \<and> (\<exists>c''. send_message c' (Str ''hello'') = Awaits Wait_data_sent c'')
         \<and> (\<exists>c''. get_message c' = Awaits Wait_message c''))"
proof
  show "close_reason (state_of (reader_iteration nm c (env\<lparr>recv := Data []\<rparr>))) = close_reason c"
    by (simp add: reader_iteration_def and_then_def CloseReason_init_total close_stream_def
        Let_def state_of_def split: option.splits exn.splits)
next
  show "\<exists>c'. reader_iteration sample_names client_connection
              \<lparr>recv = Data [], engine_closed = False, engine_events = [], aclose = None\<rparr>
            = Returned Break c'
         \<and> close_creason c' =
             Some \<lparr>code = 1006, name = ''ABNORMAL_CLOSURE'',
                   reason = Some ''TCP connection aborted''\<rparr>
         \<and> close_reason c' = None
         \<and> closed_property c' = None
         \<and> closed c'
         \<and> (\<exists>c''. send_message c' (Str ''hello'') = Awaits Wait_data_sent c'')
         \<and> (\<exists>c''. get_message c' = Awaits Wait_message c'')"
    by (simp add: reader_iteration_def and_then_def CloseReason_init_total close_stream_def
        Let_def client_connection_fields sample_names_def ABNORMAL_CLOSURE_def
        closed_property_def send_message_def get_message_def)
qed

section \<open>The TLS selector of the client\<close>

text \<open>All cases of the constructor of \<open>WebSocketClient\<close>, by the value of \<open>use_ssl\<close>.\<close>

lemma WebSocketClient_init_cases:
  "WebSocketClient_init h p rsrc v =
     (case v of
        PyBool b \<Rightarrow>
          Inr \<lparr>host = h, port = p, resource = rsrc,
               ssl = (if b then Some Default_context else None)\<rparr>
      | PyInt i \<Rightarrow>
          if i = 1 then Inr \<lparr>host = h, port = p, resource = rsrc, ssl = Some Default_context\<rparr>
          else if i = 0 then Inr \<lparr>host = h, port = p, resource = rsrc, ssl = None\<rparr>
          else Inl TypeError
      | PySSLContext k \<Rightarrow>
          Inr \<lparr>host = h, port = p, resource = rsrc, ssl = Some (Given_context k)\<rparr>
      | _ \<Rightarrow> Inl TypeError)"
  by (cases v) (auto simp: WebSocketClient_init_def int_of_bool_def)

text \<open>
  Claim C9 says that a \<open>use_ssl\<close> that is neither a \<open>bool\<close> nor an \<open>SSLContext\<close> raises
  \<open>TypeError\<close>. The source compares with \<open>==\<close>, and in Python \<open>1 == True\<close> and
  \<open>0 == False\<close> hold: the integer 1 is accepted and installs a default TLS context, and the
  integer 0 is accepted and installs none.
\<close>

theorem use_ssl_integer_accepted:
  "WebSocketClient_init h p rsrc (PyInt 1) =
     Inr \<lparr>host = h, port = p, resource = rsrc, ssl = Some Default_context\<rparr>
   \<and> WebSocketClient_init h p rsrc (PyInt 0) =
     Inr \<lparr>host = h, port = p, resource = rsrc, ssl = None\<rparr>"
  by (simp add: WebSocketClient_init_def int_of_bool_def)

end
